theory Spec2Isabelle
  imports Main
begin

section \<open>The in-memory memory bank of simple_memory_test.py\<close>

text \<open>
  The class \<open>SimpleMemoryBank\<close> keeps two dictionaries keyed by user id:
  \<open>sessions\<close> (the turns of every conversation) and \<open>memories\<close> (the facts taken
  out of them). Python values that come out of \<open>json.loads\<close> are modelled by the
  datatype \<open>json\<close>; a Python dict is an association list in insertion order with
  distinct keys, and a float is kept as the text the JSON encoder writes for it.
\<close>

subsection \<open>Values, errors, the store\<close>

datatype json =
    JNull
  | JBool bool
  | JInt int
  | JFloat string
  | JStr string
  | JList "json list"
  | JDict "(string \<times> json) list"

type_synonym pydict = "(string \<times> json) list"

datatype py_error = TypeError | KeyError | JSONDecodeError | GenerationError | RecursionError

text \<open>A turn is the dict literal built by \<open>add_session_message\<close>: always these four keys.\<close>

record turn =
  session_id :: string
  role :: string
  content :: string
  timestamp :: string

record bank =
  memories :: "string \<rightharpoonup> pydict list"
  sessions :: "string \<rightharpoonup> turn list"

definition empty_bank :: bank where
  "empty_bank = \<lparr>memories = Map.empty, sessions = Map.empty\<rparr>"

text \<open>\<open>d[k] = v\<close>: an existing key keeps its place, a new key goes to the end.\<close>

fun dict_set :: "string \<Rightarrow> json \<Rightarrow> pydict \<Rightarrow> pydict" where
  "dict_set k v [] = [(k, v)]"
| "dict_set k v ((k', v') # d) = (if k' = k then (k, v) # d else (k', v') # dict_set k v d)"

text \<open>\<open>d[k]\<close>: a missing key raises KeyError.\<close>

definition dict_get :: "string \<Rightarrow> pydict \<Rightarrow> py_error + json" where
  "dict_get k d = (case map_of d k of None \<Rightarrow> Inl KeyError | Some v \<Rightarrow> Inr v)"

text \<open>The list a user's key holds, or the empty list when the key is absent.\<close>

definition facts_of :: "bank \<Rightarrow> string \<Rightarrow> pydict list" where
  "facts_of st user_id = (case memories st user_id of None \<Rightarrow> [] | Some ms \<Rightarrow> ms)"

definition turns_of :: "bank \<Rightarrow> string \<Rightarrow> turn list" where
  "turns_of st user_id = (case sessions st user_id of None \<Rightarrow> [] | Some ts \<Rightarrow> ts)"

subsection \<open>add_session_message\<close>

text \<open>
  The clock reading \<open>datetime.now().isoformat()\<close> is the argument \<open>ts\<close>. The method
  has no check of any argument and no return value; the model returns the new store.
\<close>

definition add_session_message ::
  "bank \<Rightarrow> string \<Rightarrow> string \<Rightarrow> string \<Rightarrow> string \<Rightarrow> string \<Rightarrow> bank" where
  "add_session_message st user_id sid r c ts =
     (let st1 = (if sessions st user_id = None
                 then st\<lparr>sessions := (sessions st)(user_id \<mapsto> [])\<rparr> else st)
      in st1\<lparr>sessions := (sessions st1)(user_id \<mapsto>
                turns_of st1 user_id @
                  [\<lparr>session_id = sid, role = r, content = c, timestamp = ts\<rparr>])\<rparr>)"

subsection \<open>Python string operations\<close>

text \<open>
  A string is a list of code points below 256. \<open>str.isspace\<close> is true of the
  characters 9 to 13, 28 to 32, 133 and 160 there.
\<close>

definition py_isspace :: "char \<Rightarrow> bool" where
  "py_isspace c =
     (let n = (of_char c :: nat)
      in (9 \<le> n \<and> n \<le> 13) \<or> (28 \<le> n \<and> n \<le> 32) \<or> n = 133 \<or> n = 160)"

definition py_strip :: "string \<Rightarrow> string" where
  "py_strip s = rev (dropWhile py_isspace (rev (dropWhile py_isspace s)))"

fun startswith :: "string \<Rightarrow> string \<Rightarrow> bool" where
  "startswith [] s = True"
| "startswith (p # ps) [] = False"
| "startswith (p # ps) (c # cs) = (p = c \<and> startswith ps cs)"

text \<open>
  \<open>s.replace(old, new)\<close> for a non-empty \<open>old\<close>: the occurrences are found from the
  left and do not overlap.
\<close>

fun replace_from :: "string \<Rightarrow> string \<Rightarrow> string \<Rightarrow> string" where
  "replace_from old new [] = []"
| "replace_from old new (c # cs) =
     (if startswith old (c # cs)
      then new @ replace_from old new (drop (length old - 1) cs)
      else c # replace_from old new cs)"

definition py_replace :: "string \<Rightarrow> string \<Rightarrow> string \<Rightarrow> string" where
  "py_replace old new s =
     (if old = [] then new @ concat (map (\<lambda>c. c # new) s) else replace_from old new s)"

fun py_join :: "string \<Rightarrow> string list \<Rightarrow> string" where
  "py_join sep [] = []"
| "py_join sep [x] = x"
| "py_join sep (x # y # ys) = x @ sep @ py_join sep (y # ys)"


definition newline :: string where
  "newline = [CHR 0x0A]"

definition fence_mark :: string where
  "fence_mark = ''```''"

definition json_fence_mark :: string where
  "json_fence_mark = ''```json''"

text \<open>
  The text both methods hand to \<open>json.loads\<close>: the response text stripped, and when
  that starts with the json fence marker, every json fence marker and then every fence
  marker removed, and the rest stripped again.
\<close>

definition clean_response :: "string \<Rightarrow> string" where
  "clean_response text =
     (let t = py_strip text
      in if startswith json_fence_mark t
         then py_strip (py_replace fence_mark [] (py_replace json_fence_mark [] t))
         else t)"


subsection \<open>The generation call\<close>

text \<open>
  A prompt is the fixed template together with the texts interpolated into it: the
  transcript for extraction, the query and the listing of the user's memories for search.
  The call \<open>model.generate_content(prompt).text\<close> gives a text or raises; \<open>json.loads\<close>
  is the argument \<open>loads\<close> of the methods, \<open>json.dumps(user_memories, indent=2)\<close> is the
  argument \<open>dumps\<close> of the search, and the clock is \<open>now\<close>, read once for each stored
  item.
\<close>

datatype prompt = ExtractionPrompt string | SearchPrompt string string

datatype gen_result = GenText string | GenRaises

type_synonym generator = "prompt \<Rightarrow> gen_result"

type_synonym decoder = "string \<Rightarrow> py_error + json"

type_synonym encoder = "pydict list \<Rightarrow> py_error + string"

subsection \<open>extract_memories\<close>

definition stamp :: "string \<Rightarrow> string \<Rightarrow> pydict \<Rightarrow> pydict" where
  "stamp sid ts d = dict_set ''extracted_at'' (JStr ts) (dict_set ''session_id'' (JStr sid) d)"

text \<open>
  What \<open>for memory in v\<close> runs over: the items of a list, the keys of a dict, the
  characters of a string; anything else is not iterable.
\<close>

fun py_iter :: "json \<Rightarrow> py_error + json list" where
  "py_iter (JList xs) = Inr xs"
| "py_iter (JDict kvs) = Inr (map (\<lambda>kv. JStr (fst kv)) kvs)"
| "py_iter (JStr s) = Inr (map (\<lambda>c. JStr [c]) s)"
| "py_iter v = Inl TypeError"

fun py_len :: "json \<Rightarrow> py_error + nat" where
  "py_len (JList xs) = Inr (length xs)"
| "py_len (JDict kvs) = Inr (length kvs)"
| "py_len (JStr s) = Inr (length s)"
| "py_len v = Inl TypeError"

text \<open>
  The storing loop. \<open>mems\<close> is the list \<open>self.memories[user_id]\<close> and \<open>seen\<close> the
  items already stamped, in order. Item assignment on anything but a dict raises
  TypeError, and the loop stops there with what it has appended so far.
\<close>

fun store_loop ::
  "string \<Rightarrow> (nat \<Rightarrow> string) \<Rightarrow> nat \<Rightarrow> json list \<Rightarrow> pydict list \<Rightarrow> pydict list \<Rightarrow>
     py_error option \<times> pydict list \<times> pydict list" where
  "store_loop sid now i [] mems seen = (None, mems, seen)"
| "store_loop sid now i (JDict d # rest) mems seen =
     store_loop sid now (Suc i) rest
       (mems @ [stamp sid (now i) d]) (seen @ [stamp sid (now i) d])"
| "store_loop sid now i (v # rest) mems seen = (Some TypeError, mems, seen)"

text \<open>
  The leading dicts of a list of items, stamped as the loop stamps them: the items that
  come before the first one the loop cannot store.
\<close>

fun stamped_prefix :: "string \<Rightarrow> (nat \<Rightarrow> string) \<Rightarrow> nat \<Rightarrow> json list \<Rightarrow> pydict list" where
  "stamped_prefix sid now i [] = []"
| "stamped_prefix sid now i (JDict d # rest) =
     stamp sid (now i) d # stamped_prefix sid now (Suc i) rest"
| "stamped_prefix sid now i (v # rest) = []"

text \<open>What a call leaves appended when the storing of a decoded value fails.\<close>

definition kept_items :: "string \<Rightarrow> (nat \<Rightarrow> string) \<Rightarrow> json \<Rightarrow> pydict list" where
  "kept_items sid now parsed =
     (case py_iter parsed of Inl e \<Rightarrow> [] | Inr items \<Rightarrow> stamped_prefix sid now 0 items)"

text \<open>
  The body of the \<open>try\<close> block: the value it returns or the exception it raises, and
  the store as the body left it.
\<close>

definition extract_try ::
  "generator \<Rightarrow> decoder \<Rightarrow> (nat \<Rightarrow> string) \<Rightarrow> bank \<Rightarrow> string \<Rightarrow> string \<Rightarrow> prompt \<Rightarrow>
     (py_error + json) \<times> bank" where
  "extract_try gen loads now st user_id sid p =
     (case gen p of
        GenRaises \<Rightarrow> (Inl GenerationError, st)
      | GenText text \<Rightarrow>
          (case loads (clean_response text) of
             Inl e \<Rightarrow> (Inl e, st)
           | Inr extracted \<Rightarrow>
               let st1 = (if memories st user_id = None
                          then st\<lparr>memories := (memories st)(user_id \<mapsto> [])\<rparr> else st)
               in (case py_iter extracted of
                     Inl e \<Rightarrow> (Inl e, st1)
                   | Inr items \<Rightarrow>
                       (case store_loop sid now 0 items (facts_of st1 user_id) [] of
                          (err, mems, seen) \<Rightarrow>
                            let st2 = st1\<lparr>memories := (memories st1)(user_id \<mapsto> mems)\<rparr>
                            in (case err of
                                  Some e \<Rightarrow> (Inl e, st2)
                                | None \<Rightarrow>
                                    (Inr (case extracted of
                                            JList xs \<Rightarrow> JList (map JDict seen)
                                          | v \<Rightarrow> v), st2))))))"

definition session_messages :: "bank \<Rightarrow> string \<Rightarrow> string \<Rightarrow> turn list" where
  "session_messages st user_id sid = filter (\<lambda>msg. session_id msg = sid) (turns_of st user_id)"

definition conversation :: "turn list \<Rightarrow> string" where
  "conversation msgs = py_join newline (map (\<lambda>msg. role msg @ '': '' @ content msg) msgs)"

definition extraction_prompt :: "bank \<Rightarrow> string \<Rightarrow> string \<Rightarrow> prompt" where
  "extraction_prompt st user_id sid =
     ExtractionPrompt (conversation (session_messages st user_id sid))"

text \<open>
  The method: the value returned (no exception is an \<open>Inr\<close>), the store afterwards and
  the prompts sent to the generation call, in order.
\<close>

definition extract_memories ::
  "generator \<Rightarrow> decoder \<Rightarrow> (nat \<Rightarrow> string) \<Rightarrow> bank \<Rightarrow> string \<Rightarrow> string \<Rightarrow>
     (py_error + json) \<times> bank \<times> prompt list" where
  "extract_memories gen loads now st user_id sid =
     (if sessions st user_id = None then (Inr (JList []), st, [])
      else if session_messages st user_id sid = [] then (Inr (JList []), st, [])
      else
        let p = extraction_prompt st user_id sid
        in (case extract_try gen loads now st user_id sid p of
              (Inr v, st') \<Rightarrow> (Inr v, st', [p])
            | (Inl e, st') \<Rightarrow> (Inr (JList []), st', [p])))"

text \<open>
  The call reaches the \<open>try\<close> block and leaves it through the handler (it fails), or
  through the \<open>return\<close> at its end (it succeeds).
\<close>

definition extract_fails ::
  "generator \<Rightarrow> decoder \<Rightarrow> (nat \<Rightarrow> string) \<Rightarrow> bank \<Rightarrow> string \<Rightarrow> string \<Rightarrow> bool" where
  "extract_fails gen loads now st user_id sid =
     (session_messages st user_id sid \<noteq> []
      \<and> isl (fst (extract_try gen loads now st user_id sid (extraction_prompt st user_id sid))))"

definition extract_succeeds ::
  "generator \<Rightarrow> decoder \<Rightarrow> (nat \<Rightarrow> string) \<Rightarrow> bank \<Rightarrow> string \<Rightarrow> string \<Rightarrow> bool" where
  "extract_succeeds gen loads now st user_id sid =
     (session_messages st user_id sid \<noteq> []
      \<and> \<not> isl (fst (extract_try gen loads now st user_id sid (extraction_prompt st user_id sid))))"

text \<open>The generation call raised, or its text did not decode.\<close>

definition response_undecodable :: "generator \<Rightarrow> decoder \<Rightarrow> prompt \<Rightarrow> bool" where
  "response_undecodable gen loads p =
     (case gen p of GenRaises \<Rightarrow> True | GenText text \<Rightarrow> isl (loads (clean_response text)))"

definition is_list :: "json \<Rightarrow> bool" where
  "is_list v = (case v of JList xs \<Rightarrow> True | _ \<Rightarrow> False)"

definition is_dict :: "json \<Rightarrow> bool" where
  "is_dict v = (case v of JDict d \<Rightarrow> True | _ \<Rightarrow> False)"

subsection \<open>search_memories\<close>

definition search_try :: "generator \<Rightarrow> decoder \<Rightarrow> prompt \<Rightarrow> py_error + json" where
  "search_try gen loads p =
     (case gen p of
        GenRaises \<Rightarrow> Inl GenerationError
      | GenText text \<Rightarrow> loads (clean_response text))"

text \<open>
  The method: the value returned or the exception that leaves it, the store afterwards
  and the prompts sent. The prompt is built before the \<open>try\<close> block, so an exception of
  \<open>json.dumps\<close> is not caught and no generation call is made.
\<close>

definition search_memories ::
  "generator \<Rightarrow> decoder \<Rightarrow> encoder \<Rightarrow> bank \<Rightarrow> string \<Rightarrow> string \<Rightarrow>
     (py_error + json) \<times> bank \<times> prompt list" where
  "search_memories gen loads dumps st user_id query =
     (case memories st user_id of
        None \<Rightarrow> (Inr (JList []), st, [])
      | Some user_memories \<Rightarrow>
          if user_memories = [] then (Inr (JList []), st, [])
          else
            (case dumps user_memories of
               Inl e \<Rightarrow> (Inl e, st, [])
             | Inr listing \<Rightarrow>
                 let p = SearchPrompt query listing
                 in (case search_try gen loads p of
                       Inr relevant_memories \<Rightarrow> (Inr relevant_memories, st, [p])
                     | Inl e \<Rightarrow> (Inr (JList (map JDict (take 3 user_memories))), st, [p]))))"

subsection \<open>get_memory_summary\<close>

fun memory_facts :: "pydict list \<Rightarrow> py_error + json list" where
  "memory_facts [] = Inr []"
| "memory_facts (memory # rest) =
     (case dict_get ''fact'' memory of
        Inl e \<Rightarrow> Inl e
      | Inr f \<Rightarrow> (case memory_facts rest of Inl e \<Rightarrow> Inl e | Inr fs \<Rightarrow> Inr (f # fs)))"

fun decimal :: "nat \<Rightarrow> string" where
  "decimal n =
     (if n < 10 then [char_of (48 + n)] else decimal (n div 10) @ [char_of (48 + n mod 10)])"

declare decimal.simps [simp del]

text \<open>The results of a sequence of steps, up to the first that raises.\<close>

fun collect :: "(py_error + 'a) list \<Rightarrow> py_error + 'a list" where
  "collect [] = Inr []"
| "collect (Inl e # rs) = Inl e"
| "collect (Inr x # rs) = (case collect rs of Inl e \<Rightarrow> Inl e | Inr xs \<Rightarrow> Inr (x # xs))"

text \<open>
  \<open>f"- {fact}"\<close>: a string is inserted as it is; the text of any other value is left to
  the argument \<open>repr\<close>, which may raise as Python's \<open>str\<close> may on a value nested too
  deep.
\<close>

definition fact_line :: "(json \<Rightarrow> py_error + string) \<Rightarrow> json \<Rightarrow> py_error + string" where
  "fact_line repr f =
     (case f of
        JStr s \<Rightarrow> Inr (''- '' @ s)
      | v \<Rightarrow> (case repr v of Inl e \<Rightarrow> Inl e | Inr t \<Rightarrow> Inr (''- '' @ t)))"

definition no_memories :: string where
  "no_memories = ''No memories found for this user.''"

definition get_memory_summary ::
  "(json \<Rightarrow> py_error + string) \<Rightarrow> bank \<Rightarrow> string \<Rightarrow> py_error + string" where
  "get_memory_summary repr st user_id =
     (case memories st user_id of
        None \<Rightarrow> Inr no_memories
      | Some mems \<Rightarrow>
          if mems = [] then Inr no_memories
          else (case memory_facts mems of
                  Inl e \<Rightarrow> Inl e
                | Inr fs \<Rightarrow>
                    (case collect (map (fact_line repr) fs) of
                       Inl e \<Rightarrow> Inl e
                     | Inr lines \<Rightarrow>
                         Inr (''User has '' @ decimal (length mems) @ '' stored memories:''
                              @ newline @ py_join newline lines))))"

text \<open>A stored fact that has a string under the key \<open>fact\<close>.\<close>

definition has_text_fact :: "pydict \<Rightarrow> bool" where
  "has_text_fact m = (case dict_get ''fact'' m of Inr (JStr s) \<Rightarrow> True | _ \<Rightarrow> False)"

text \<open>Some stored fact of the user has no key \<open>fact\<close>.\<close>

definition lacks_fact :: "bank \<Rightarrow> string \<Rightarrow> bool" where
  "lacks_fact st user_id = (\<exists>m \<in> set (facts_of st user_id). isl (dict_get ''fact'' m))"

subsection \<open>A decoder for concrete texts\<close>

text \<open>
  \<open>json.loads\<close> belongs to Python's library, so the methods above take the decoder as
  an argument and the general theorems hold for every decoder. Where a concrete response
  text has to be decoded, \<open>json_loads\<close> is used: a recursive-descent decoder for the JSON
  texts built from arrays, objects, strings without escapes, integers and the three
  literals, on which it gives the value the library gives. Any other text is reported
  as not decodable; no theorem below decodes such a text.
\<close>

definition json_ws :: "char \<Rightarrow> bool" where
  "json_ws c = (c = CHR '' '' \<or> c = CHR 0x09 \<or> c = CHR 0x0A \<or> c = CHR 0x0D)"

definition skip_ws :: "string \<Rightarrow> string" where
  "skip_ws s = dropWhile json_ws s"

definition is_digit :: "char \<Rightarrow> bool" where
  "is_digit c = (48 \<le> (of_char c :: nat) \<and> (of_char c :: nat) \<le> 57)"

fun scan_string :: "string \<Rightarrow> (string \<times> string) option" where
  "scan_string [] = None"
| "scan_string (c # cs) =
     (if c = CHR 0x22 then Some ([], cs)
      else if c = CHR 0x5C \<or> (of_char c :: nat) < 32 then None
      else (case scan_string cs of None \<Rightarrow> None | Some (s, r) \<Rightarrow> Some (c # s, r)))"

definition scan_int :: "string \<Rightarrow> (int \<times> string) option" where
  "scan_int s =
     (let ds = takeWhile is_digit s; r = dropWhile is_digit s
      in if ds = [] \<or> (length ds > 1 \<and> hd ds = CHR ''0'') then None
         else if r \<noteq> [] \<and> (hd r = CHR ''.'' \<or> hd r = CHR ''e'' \<or> hd r = CHR ''E'') then None
         else Some (foldl (\<lambda>a d. 10 * a + int (of_char d - 48)) 0 ds, r))"

definition scan_number :: "string \<Rightarrow> (json \<times> string) option" where
  "scan_number s =
     (case s of
        [] \<Rightarrow> None
      | c # cs \<Rightarrow>
          if c = CHR ''-'' then map_option (\<lambda>(n, r). (JInt (- n), r)) (scan_int cs)
          else map_option (\<lambda>(n, r). (JInt n, r)) (scan_int s))"

text \<open>
  The first argument bounds the depth of the recursion; \<open>json_loads\<close> starts it above
  the length of the text. The members of an object are stored as item assignment does,
  so a repeated key keeps its first place and its last value.
\<close>

fun parse_value :: "nat \<Rightarrow> string \<Rightarrow> (json \<times> string) option"
  and parse_elems :: "nat \<Rightarrow> string \<Rightarrow> (json list \<times> string) option"
  and parse_members :: "nat \<Rightarrow> pydict \<Rightarrow> string \<Rightarrow> (pydict \<times> string) option" where
  "parse_value 0 s = None"
| "parse_value (Suc n) s =
     (case skip_ws s of
        [] \<Rightarrow> None
      | c # cs \<Rightarrow>
          if c = CHR ''['' then
            (case skip_ws cs of
               [] \<Rightarrow> None
             | d # ds \<Rightarrow> if d = CHR '']'' then Some (JList [], ds)
                         else map_option (\<lambda>(xs, r). (JList xs, r)) (parse_elems n cs))
          else if c = CHR ''{'' then
            (case skip_ws cs of
               [] \<Rightarrow> None
             | d # ds \<Rightarrow> if d = CHR ''}'' then Some (JDict [], ds)
                         else map_option (\<lambda>(kvs, r). (JDict kvs, r)) (parse_members n [] cs))
          else if c = CHR 0x22 then map_option (\<lambda>(x, r). (JStr x, r)) (scan_string cs)
          else if startswith ''null'' (c # cs) then Some (JNull, drop 3 cs)
          else if startswith ''true'' (c # cs) then Some (JBool True, drop 3 cs)
          else if startswith ''false'' (c # cs) then Some (JBool False, drop 4 cs)
          else scan_number (c # cs))"
| "parse_elems 0 s = None"
| "parse_elems (Suc n) s =
     (case parse_value n s of
        None \<Rightarrow> None
      | Some (v, r) \<Rightarrow>
          (case skip_ws r of
             [] \<Rightarrow> None
           | c # r' \<Rightarrow>
               if c = CHR '']'' then Some ([v], r')
               else if c = CHR '','' then map_option (\<lambda>(vs, r''). (v # vs, r'')) (parse_elems n r')
               else None))"
| "parse_members 0 acc s = None"
| "parse_members (Suc n) acc s =
     (case skip_ws s of
        [] \<Rightarrow> None
      | q # s1 \<Rightarrow>
          if q \<noteq> CHR 0x22 then None
          else (case scan_string s1 of
                  None \<Rightarrow> None
                | Some (k, s2) \<Rightarrow>
                    (case skip_ws s2 of
                       [] \<Rightarrow> None
                     | c # s3 \<Rightarrow>
                         if c \<noteq> CHR '':'' then None
                         else (case parse_value n s3 of
                                 None \<Rightarrow> None
                               | Some (v, r) \<Rightarrow>
                                   (case skip_ws r of
                                      [] \<Rightarrow> None
                                    | e # r' \<Rightarrow>
                                        if e = CHR ''}'' then Some (dict_set k v acc, r')
                                        else if e = CHR '','' then
                                          parse_members n (dict_set k v acc) r'
                                        else None)))))"

definition json_loads :: decoder where
  "json_loads s =
     (case parse_value (Suc (length s)) s of
        None \<Rightarrow> Inl JSONDecodeError
      | Some (v, r) \<Rightarrow> if skip_ws r = [] then Inr v else Inl JSONDecodeError)"

subsection \<open>An encoder for concrete stores\<close>

text \<open>
  \<open>json.dumps\<close> belongs to Python's library as well, and the general theorems hold for
  every encoder. For a concrete store \<open>json_dumps\<close> writes what the library writes with
  \<open>indent=2\<close>: items and members on lines of their own, two spaces for each level, every
  character outside the printable ASCII range escaped. Its first argument is the number
  of nested containers the interpreter's recursion limit leaves room for; a value nested
  deeper raises RecursionError.
\<close>

definition hex_digit :: "nat \<Rightarrow> char" where
  "hex_digit n = (if n < 10 then char_of (48 + n) else char_of (87 + n))"

definition escape_char :: "char \<Rightarrow> string" where
  "escape_char c =
     (let n = (of_char c :: nat)
      in if c = CHR 0x22 then [CHR 0x5C, CHR 0x22]
         else if c = CHR 0x5C then [CHR 0x5C, CHR 0x5C]
         else if n = 8 then [CHR 0x5C, CHR ''b'']
         else if n = 12 then [CHR 0x5C, CHR ''f'']
         else if n = 10 then [CHR 0x5C, CHR ''n'']
         else if n = 13 then [CHR 0x5C, CHR ''r'']
         else if n = 9 then [CHR 0x5C, CHR ''t'']
         else if 32 \<le> n \<and> n \<le> 126 then [c]
         else [CHR 0x5C, CHR ''u'', CHR ''0'', CHR ''0'', hex_digit (n div 16), hex_digit (n mod 16)])"

definition encode_str :: "string \<Rightarrow> string" where
  "encode_str s = [CHR 0x22] @ concat (map escape_char s) @ [CHR 0x22]"

definition int_text :: "int \<Rightarrow> string" where
  "int_text i = (if i < 0 then CHR ''-'' # decimal (nat (- i)) else decimal (nat i))"

definition newline_indent :: "nat \<Rightarrow> string" where
  "newline_indent level = newline @ replicate (2 * level) CHR '' ''"

fun iterencode :: "nat \<Rightarrow> nat \<Rightarrow> json \<Rightarrow> py_error + string" where
  "iterencode n level JNull = Inr ''null''"
| "iterencode n level (JBool b) = Inr (if b then ''true'' else ''false'')"
| "iterencode n level (JInt i) = Inr (int_text i)"
| "iterencode n level (JFloat s) = Inr s"
| "iterencode n level (JStr s) = Inr (encode_str s)"
| "iterencode 0 level (JList xs) = Inl RecursionError"
| "iterencode 0 level (JDict kvs) = Inl RecursionError"
| "iterencode (Suc n) level (JList xs) =
     (if xs = [] then Inr ''[]''
      else (case collect (map (iterencode n (Suc level)) xs) of
              Inl e \<Rightarrow> Inl e
            | Inr parts \<Rightarrow>
                Inr (''['' @ newline_indent (Suc level)
                     @ py_join ('','' @ newline_indent (Suc level)) parts
                     @ newline_indent level @ '']'')))"
| "iterencode (Suc n) level (JDict kvs) =
     (if kvs = [] then Inr ''{}''
      else (case collect (map (\<lambda>kv. case iterencode n (Suc level) (snd kv) of
                                      Inl e \<Rightarrow> Inl e
                                    | Inr t \<Rightarrow> Inr (encode_str (fst kv) @ '': '' @ t)) kvs) of
              Inl e \<Rightarrow> Inl e
            | Inr parts \<Rightarrow>
                Inr (''{'' @ newline_indent (Suc level)
                     @ py_join ('','' @ newline_indent (Suc level)) parts
                     @ newline_indent level @ ''}'')))"

definition json_dumps :: "nat \<Rightarrow> encoder" where
  "json_dumps limit user_memories = iterencode limit 0 (JList (map JDict user_memories))"

subsection \<open>Reachable stores\<close>

text \<open>
  The stores a program can build with the two mutating methods, starting from a new
  \<open>SimpleMemoryBank\<close>, whatever the generation call answers and the clock reads.
\<close>

inductive reachable :: "decoder \<Rightarrow> bank \<Rightarrow> bool" for loads :: decoder where
  reach_init: "reachable loads empty_bank"
| reach_add: "reachable loads st \<Longrightarrow> reachable loads (add_session_message st user_id sid r c ts)"
| reach_extract:
    "reachable loads st \<Longrightarrow>
     reachable loads (fst (snd (extract_memories gen loads now st user_id sid)))"

subsection \<open>A sample run\<close>

text \<open>One user turn of user \<open>u1\<close> in session \<open>s1\<close>, and a clock that always reads \<open>t\<close>.\<close>

definition one_turn :: bank where
  "one_turn = add_session_message empty_bank ''u1'' ''s1'' ''user'' ''hi'' ''t''"

definition clock :: "nat \<Rightarrow> string" where
  "clock i = ''t''"

text \<open>The store after an extraction that the generation call answered with \<open>text\<close>.\<close>

definition extracted_from :: "string \<Rightarrow> bank" where
  "extracted_from text =
     fst (snd (extract_memories (\<lambda>p. GenText text) json_loads clock one_turn ''u1'' ''s1''))"

text \<open>A fact as the storing loop leaves it in this run.\<close>

definition stored_fact :: "string \<Rightarrow> pydict" where
  "stored_fact x = [(''fact'', JStr x), (''session_id'', JStr ''s1''), (''extracted_at'', JStr ''t'')]"

definition one_fact :: bank where
  \<open>one_fact = extracted_from ''[{"fact": "a"}]''\<close>

definition four_facts :: bank where
  \<open>four_facts = extracted_from ''[{"fact": "a"}, {"fact": "b"}, {"fact": "c"}, {"fact": "d"}]''\<close>

text \<open>A stored fact as a search response gives it back, with a relevance score.\<close>

definition scored_fact :: "string \<Rightarrow> int \<Rightarrow> pydict" where
  "scored_fact x k = stored_fact x @ [(''relevance_score'', JInt k)]"

section \<open>Properties\<close>

subsection \<open>Auxiliary facts\<close>

lemma map_of_dict_set: "map_of (dict_set k v d) = (map_of d)(k \<mapsto> v)"
  by (induction d) (auto simp: fun_eq_iff)

lemma dict_get_stamp: "dict_get ''session_id'' (stamp sid ts d) = Inr (JStr sid)"
  by (simp add: dict_get_def stamp_def map_of_dict_set)

text \<open>The loop only appends, and what it appends carries the session id of the call.\<close>

lemma store_loop_shape:
  "store_loop sid now i items mems seen = (err, mems', seen') \<Longrightarrow>
     \<exists>new. mems' = mems @ new \<and> seen' = seen @ new \<and> length new \<le> length items
       \<and> (err = None \<longrightarrow> length new = length items)
       \<and> (\<forall>d\<in>set new. dict_get ''session_id'' d = Inr (JStr sid))"
proof (induction sid now i items mems seen rule: store_loop.induct)
  case (1 sid now i mems seen)
  then show ?case by simp
next
  case (2 sid now i d rest mems seen)
  from "2.prems" have
    "store_loop sid now (Suc i) rest (mems @ [stamp sid (now i) d]) (seen @ [stamp sid (now i) d])
       = (err, mems', seen')"
    by simp
  from "2.IH" [OF this] obtain new where
    n: "mems' = (mems @ [stamp sid (now i) d]) @ new"
       "seen' = (seen @ [stamp sid (now i) d]) @ new"
       "length new \<le> length rest" "err = None \<longrightarrow> length new = length rest"
       "\<forall>d\<in>set new. dict_get ''session_id'' d = Inr (JStr sid)"
    by blast
  show ?case
    by (rule exI [of _ "stamp sid (now i) d # new"]) (use n in \<open>simp add: dict_get_stamp\<close>)
qed auto

text \<open>What the loop appends is the stamped prefix, and it fails unless every item is a dict.\<close>

lemma store_loop_prefix:
  "store_loop sid now i items mems seen =
     (if list_all is_dict items then None else Some TypeError,
      mems @ stamped_prefix sid now i items, seen @ stamped_prefix sid now i items)"
  by (induction sid now i items mems seen rule: store_loop.induct) (simp_all add: is_dict_def)

lemma stamped_prefix_short:
  "\<not> list_all is_dict items \<Longrightarrow> length (stamped_prefix sid now i items) < length items"
proof (induction sid now i items rule: stamped_prefix.induct)
  case (2 sid now i d rest)
  then show ?case by (simp add: is_dict_def)
qed (simp_all add: is_dict_def)

lemma extract_try_failure:
  assumes "extract_try gen loads now st user_id sid p = (Inl e, st')"
    and "gen p = GenText resp" and "loads (clean_response resp) = Inr parsed"
  shows "st' = st\<lparr>memories := (memories st)(user_id \<mapsto>
                  facts_of st user_id @ kept_items sid now parsed)\<rparr>
       \<and> (\<forall>items. py_iter parsed = Inr items \<longrightarrow>
             length (kept_items sid now parsed) < length items)"
proof (cases "py_iter parsed")
  case (Inl e')
  with assms show ?thesis
    by (auto simp: extract_try_def kept_items_def facts_of_def Let_def map_upd_triv
        split: option.splits if_splits)
next
  case (Inr items)
  with assms have nd: "\<not> list_all is_dict items"
    by (auto simp: extract_try_def Let_def store_loop_prefix split: if_splits)
  from Inr assms have "st' = st\<lparr>memories := (memories st)(user_id \<mapsto>
                  facts_of st user_id @ stamped_prefix sid now 0 items)\<rparr>"
    by (auto simp: extract_try_def Let_def store_loop_prefix facts_of_def
        split: if_splits option.splits)
  with Inr stamped_prefix_short [OF nd] show ?thesis
    by (simp add: kept_items_def)
qed

lemma extract_try_frame:
  "extract_try gen loads now st user_id sid p = (r, st') \<Longrightarrow>
     sessions st' = sessions st
     \<and> (\<forall>u. u \<noteq> user_id \<longrightarrow> memories st' u = memories st u)
     \<and> (\<exists>new. facts_of st' user_id = facts_of st user_id @ new
           \<and> (\<forall>d\<in>set new. dict_get ''session_id'' d = Inr (JStr sid)))"
  by (auto simp: extract_try_def Let_def facts_of_def
      split: gen_result.splits sum.splits prod.splits option.splits if_splits
      dest!: store_loop_shape)

lemma extract_try_undecodable:
  "response_undecodable gen loads p \<Longrightarrow>
     \<exists>e. extract_try gen loads now st user_id sid p = (Inl e, st)"
  by (auto simp: extract_try_def response_undecodable_def isl_def
      split: gen_result.splits sum.splits)

lemma extract_try_success:
  "extract_try gen loads now st user_id sid p = (Inr v, st') \<Longrightarrow>
     \<exists>resp parsed n new.
       gen p = GenText resp \<and> loads (clean_response resp) = Inr parsed
       \<and> py_len parsed = Inr n \<and> py_len v = Inr n
       \<and> facts_of st' user_id = facts_of st user_id @ new \<and> length new = n
       \<and> (\<forall>d\<in>set new. dict_get ''session_id'' d = Inr (JStr sid))"
  by (auto simp: extract_try_def Let_def facts_of_def
      split: gen_result.splits sum.splits prod.splits option.splits if_splits json.splits
      dest!: store_loop_shape)

lemma extract_memories_reached:
  "session_messages st user_id sid \<noteq> [] \<Longrightarrow>
   extract_memories gen loads now st user_id sid =
     (case extract_try gen loads now st user_id sid (extraction_prompt st user_id sid) of
        (Inr v, st') \<Rightarrow> (Inr v, st', [extraction_prompt st user_id sid])
      | (Inl e, st') \<Rightarrow> (Inr (JList []), st', [extraction_prompt st user_id sid]))"
  by (auto simp: extract_memories_def session_messages_def turns_of_def Let_def)

lemma four_facts_memories:
  "memories four_facts ''u1'' =
     Some [stored_fact ''a'', stored_fact ''b'', stored_fact ''c'', stored_fact ''d'']"
  unfolding four_facts_def by code_simp

lemma four_facts_listing:
  "\<not> isl (json_dumps 100
            [stored_fact ''a'', stored_fact ''b'', stored_fact ''c'', stored_fact ''d''])"
  by code_simp

lemma oops_undecodable: "response_undecodable (\<lambda>p. GenText ''oops'') json_loads p"
proof -
  have "isl (json_loads (clean_response ''oops''))"
    by code_simp
  then show ?thesis by (simp add: response_undecodable_def)
qed

text \<open>The list of facts of the summary: one missing key raises, strings all pass.\<close>

lemma memory_facts_missing:
  "m \<in> set ms \<Longrightarrow> isl (dict_get ''fact'' m) \<Longrightarrow> memory_facts ms = Inl KeyError"
  by (induction ms) (auto simp: dict_get_def isl_def split: option.splits sum.splits)

lemma memory_facts_text:
  "list_all has_text_fact ms \<Longrightarrow>
     \<exists>fs ls. memory_facts ms = Inr fs \<and> collect (map (fact_line repr) fs) = Inr ls"
  by (induction ms)
     (auto simp: has_text_fact_def fact_line_def split: sum.splits json.splits)



























subsection \<open>add_session_message\<close>

text \<open>
  C6 (as the code has it). \<open>add_session_message\<close> validates nothing: for every user id,
  the empty string included, it appends exactly one turn, carrying the given session id,
  role, content and clock reading, to that user's turn list (an unknown user starts from
  the empty list); the turns of every other user and all memories stay as they were.
\<close>

theorem add_session_message_appends:
  "turns_of (add_session_message st user_id sid r c ts) user_id =
     turns_of st user_id @ [\<lparr>session_id = sid, role = r, content = c, timestamp = ts\<rparr>]
   \<and> sessions (add_session_message st user_id sid r c ts) user_id \<noteq> None
   \<and> (\<forall>u. u \<noteq> user_id \<longrightarrow>
         sessions (add_session_message st user_id sid r c ts) u = sessions st u)
   \<and> memories (add_session_message st user_id sid r c ts) = memories st"
  by (simp add: add_session_message_def turns_of_def Let_def split: option.splits)

text \<open>
  C6, witness: after a turn of user \<open>u1\<close> on the empty store, user \<open>u2\<close> still has
  no turn list and \<open>u1\<close> has exactly the new turn.
\<close>

theorem add_session_message_appends_witness:
  "''u2'' \<noteq> ''u1''
   \<and> sessions (add_session_message empty_bank ''u1'' ''s1'' ''user'' ''hi'' ''t'') ''u2'' = None
   \<and> turns_of (add_session_message empty_bank ''u1'' ''s1'' ''user'' ''hi'' ''t'') ''u1'' =
       [\<lparr>session_id = ''s1'', role = ''user'', content = ''hi'', timestamp = ''t''\<rparr>]"
  using add_session_message_appends [of empty_bank "''u1''" "''s1''" "''user''" "''hi''" "''t''"]
  by (simp add: empty_bank_def turns_of_def)

text \<open>
  C6, counterexample to the claim as stated: the empty user id is not rejected. On the
  empty store the call with user id \<open>''\<close> returns normally and leaves a turn stored under
  the empty key.
\<close>

theorem add_session_message_empty_user_stored:
  "sessions (add_session_message empty_bank [] ''s1'' ''user'' ''hi'' ''t'') [] =
     Some [\<lparr>session_id = ''s1'', role = ''user'', content = ''hi'', timestamp = ''t''\<rparr>]"
  by (simp add: add_session_message_def empty_bank_def turns_of_def Let_def)

subsection \<open>extract_memories\<close>

text \<open>
  C8. When the user has no turn whose session id is the given one (an unknown user
  included: such a user has no turns at all), \<open>extract_memories\<close> returns the empty list,
  leaves the store as it was and sends no prompt to the generation call.
\<close>

theorem extract_empty_session:
  assumes "session_messages st user_id sid = []"
  shows "extract_memories gen loads now st user_id sid = (Inr (JList []), st, [])"
  using assms by (simp add: extract_memories_def)

text \<open>
  C8, witness: user \<open>u1\<close> has one turn, in session \<open>s1\<close>; extraction for session \<open>s2\<close>
  returns the empty list, keeps the store and calls nothing.
\<close>

theorem extract_empty_session_witness:
  "session_messages one_turn ''u1'' ''s2'' = []
   \<and> extract_memories (\<lambda>p. GenText ''[]'') json_loads clock one_turn ''u1'' ''s2'' =
       (Inr (JList []), one_turn, [])"
proof -
  have h: "session_messages one_turn ''u1'' ''s2'' = []"
    by code_simp
  from h extract_empty_session [OF h] show ?thesis
    by simp
qed

text \<open>
  C4. When \<open>extract_memories\<close> succeeds, the response text decoded to a value of some
  length \<open>n\<close>, the value returned has that length, the user's fact collection is the old
  one followed by \<open>n\<close> new facts, and every new fact has the session id of the call under
  the key \<open>session_id\<close>, whatever the decoded item had there.
\<close>

theorem extract_success_appends:
  assumes "extract_succeeds gen loads now st user_id sid"
  shows "\<exists>v resp parsed n new.
       fst (extract_memories gen loads now st user_id sid) = Inr v
     \<and> gen (extraction_prompt st user_id sid) = GenText resp
     \<and> loads (clean_response resp) = Inr parsed
     \<and> py_len parsed = Inr n \<and> py_len v = Inr n
     \<and> facts_of (fst (snd (extract_memories gen loads now st user_id sid))) user_id =
         facts_of st user_id @ new
     \<and> length new = n
     \<and> length (facts_of (fst (snd (extract_memories gen loads now st user_id sid))) user_id) =
         length (facts_of st user_id) + n
     \<and> (\<forall>d\<in>set new. dict_get ''session_id'' d = Inr (JStr sid))"
proof -
  from assms have ne: "session_messages st user_id sid \<noteq> []"
    by (simp add: extract_succeeds_def)
  from assms have
    "\<not> isl (fst (extract_try gen loads now st user_id sid (extraction_prompt st user_id sid)))"
    by (simp add: extract_succeeds_def)
  then obtain v where
    "fst (extract_try gen loads now st user_id sid (extraction_prompt st user_id sid)) = Inr v"
    by (cases "fst (extract_try gen loads now st user_id sid (extraction_prompt st user_id sid))")
       auto
  then obtain st' where
    t: "extract_try gen loads now st user_id sid (extraction_prompt st user_id sid) = (Inr v, st')"
    by (cases "extract_try gen loads now st user_id sid (extraction_prompt st user_id sid)") auto
  from ne t have m: "extract_memories gen loads now st user_id sid =
      (Inr v, st', [extraction_prompt st user_id sid])"
    by (simp add: extract_memories_reached)
  from extract_try_success [OF t] obtain resp parsed n new where
    "gen (extraction_prompt st user_id sid) = GenText resp"
    "loads (clean_response resp) = Inr parsed"
    "py_len parsed = Inr n" "py_len v = Inr n"
    "facts_of st' user_id = facts_of st user_id @ new" "length new = n"
    "\<forall>d\<in>set new. dict_get ''session_id'' d = Inr (JStr sid)"
    by blast
  with m show ?thesis by auto
qed

text \<open>
  C4, witness: the response holds one item that brings a session id of its own; the
  extraction succeeds, and the stored fact has the session id of the call.
\<close>

theorem extract_success_appends_witness:
  \<open>extract_succeeds (\<lambda>p. GenText ''[{"fact": "likes tea", "session_id": "zzz"}]'')
      json_loads clock one_turn ''u1'' ''s1''
   \<and> facts_of (extracted_from ''[{"fact": "likes tea", "session_id": "zzz"}]'') ''u1'' =
       [stored_fact ''likes tea'']
   \<and> (\<exists>n new.
        facts_of (fst (snd (extract_memories
            (\<lambda>p. GenText ''[{"fact": "likes tea", "session_id": "zzz"}]'')
            json_loads clock one_turn ''u1'' ''s1''))) ''u1'' = facts_of one_turn ''u1'' @ new
        \<and> length new = n
        \<and> (\<forall>d\<in>set new. dict_get ''session_id'' d = Inr (JStr ''s1'')))\<close>
proof -
  have h: \<open>extract_succeeds (\<lambda>p. GenText ''[{"fact": "likes tea", "session_id": "zzz"}]'')
      json_loads clock one_turn ''u1'' ''s1''\<close>
    by code_simp
  have f: \<open>facts_of (extracted_from ''[{"fact": "likes tea", "session_id": "zzz"}]'') ''u1'' =
       [stored_fact ''likes tea'']\<close>
    by code_simp
  from extract_success_appends [OF h] h f show ?thesis
    by blast
qed

text \<open>
  C2 (as the code has it). When \<open>extract_memories\<close> fails it returns the empty list, and
  the turns and every other user's facts are unchanged. If the generation call raised or
  its text did not decode, the whole store is the one before the call. If the text
  decoded, the failure came while the decoded value was stored: the user's collection
  exists afterwards and is exactly the earlier facts, in order, followed by the stamped
  items that came before the first item that could not be stored, which are fewer than
  the items of the value; nothing else of the store has changed.
\<close>

theorem extract_failure_state:
  assumes "extract_fails gen loads now st user_id sid"
  shows "fst (extract_memories gen loads now st user_id sid) = Inr (JList [])
    \<and> (response_undecodable gen loads (extraction_prompt st user_id sid) \<longrightarrow>
         fst (snd (extract_memories gen loads now st user_id sid)) = st)
    \<and> (\<forall>resp parsed.
          gen (extraction_prompt st user_id sid) = GenText resp
          \<and> loads (clean_response resp) = Inr parsed \<longrightarrow>
          fst (snd (extract_memories gen loads now st user_id sid)) =
            st\<lparr>memories := (memories st)(user_id \<mapsto>
                  facts_of st user_id @ kept_items sid now parsed)\<rparr>
          \<and> (\<forall>items. py_iter parsed = Inr items \<longrightarrow>
                length (kept_items sid now parsed) < length items))
    \<and> (\<exists>new. facts_of (fst (snd (extract_memories gen loads now st user_id sid))) user_id =
               facts_of st user_id @ new)
    \<and> sessions (fst (snd (extract_memories gen loads now st user_id sid))) = sessions st
    \<and> (\<forall>u. u \<noteq> user_id \<longrightarrow>
          memories (fst (snd (extract_memories gen loads now st user_id sid))) u = memories st u)"
proof -
  from assms have ne: "session_messages st user_id sid \<noteq> []"
    by (simp add: extract_fails_def)
  from assms obtain e st' where
    t: "extract_try gen loads now st user_id sid (extraction_prompt st user_id sid) = (Inl e, st')"
    by (cases "extract_try gen loads now st user_id sid (extraction_prompt st user_id sid)")
       (auto simp: extract_fails_def isl_def)
  from ne t have m: "extract_memories gen loads now st user_id sid =
      (Inr (JList []), st', [extraction_prompt st user_id sid])"
    by (simp add: extract_memories_reached)
  have u: "response_undecodable gen loads (extraction_prompt st user_id sid) \<longrightarrow> st' = st"
    using extract_try_undecodable [of gen loads "extraction_prompt st user_id sid" now st user_id sid] t
    by auto
  have k: "\<forall>resp parsed.
          gen (extraction_prompt st user_id sid) = GenText resp
          \<and> loads (clean_response resp) = Inr parsed \<longrightarrow>
          st' = st\<lparr>memories := (memories st)(user_id \<mapsto>
                  facts_of st user_id @ kept_items sid now parsed)\<rparr>
          \<and> (\<forall>items. py_iter parsed = Inr items \<longrightarrow>
                length (kept_items sid now parsed) < length items)"
    using extract_try_failure [OF t] by blast
  from extract_try_frame [OF t] have f:
    "sessions st' = sessions st" "\<forall>u. u \<noteq> user_id \<longrightarrow> memories st' u = memories st u"
    "\<exists>new. facts_of st' user_id = facts_of st user_id @ new"
    by blast+
  from m u k f show ?thesis by simp
qed

text \<open>
  C2, witness: the response decodes to a list whose third item is a number. The call
  fails, and the user's collection, absent before, holds the two items that came before
  the number and not the one after it. When the generation call raises instead, the
  store is the one before the call.
\<close>

theorem extract_failure_state_witness:
  \<open>extract_fails (\<lambda>p. GenText ''[{"fact": "a"}, {"fact": "b"}, 7, {"fact": "c"}]'')
      json_loads clock one_turn ''u1'' ''s1''
   \<and> memories one_turn ''u1'' = None
   \<and> memories (fst (snd (extract_memories
        (\<lambda>p. GenText ''[{"fact": "a"}, {"fact": "b"}, 7, {"fact": "c"}]'')
        json_loads clock one_turn ''u1'' ''s1''))) ''u1'' =
       Some [stored_fact ''a'', stored_fact ''b'']
   \<and> extract_fails (\<lambda>p. GenRaises) json_loads clock one_turn ''u1'' ''s1''
   \<and> fst (snd (extract_memories (\<lambda>p. GenRaises) json_loads clock one_turn ''u1'' ''s1'')) =
       one_turn\<close>
proof -
  let ?g = \<open>\<lambda>p :: prompt. GenText ''[{"fact": "a"}, {"fact": "b"}, 7, {"fact": "c"}]''\<close>
  let ?v = "JList [JDict [(''fact'', JStr ''a'')], JDict [(''fact'', JStr ''b'')], JInt 7,
                   JDict [(''fact'', JStr ''c'')]]"
  have h: "extract_fails ?g json_loads clock one_turn ''u1'' ''s1''"
    by code_simp
  have d: \<open>json_loads (clean_response ''[{"fact": "a"}, {"fact": "b"}, 7, {"fact": "c"}]'') = Inr ?v\<close>
    by code_simp
  have k: "kept_items ''s1'' clock ?v = [stored_fact ''a'', stored_fact ''b'']"
    by code_simp
  have n: "memories one_turn ''u1'' = None"
    by code_simp
  have r: "extract_fails (\<lambda>p. GenRaises) json_loads clock one_turn ''u1'' ''s1''"
    by code_simp
  have u: "response_undecodable (\<lambda>p. GenRaises) json_loads (extraction_prompt one_turn ''u1'' ''s1'')"
    by (simp add: response_undecodable_def)
  from extract_failure_state [OF h] d have
    "fst (snd (extract_memories ?g json_loads clock one_turn ''u1'' ''s1'')) =
       one_turn\<lparr>memories := (memories one_turn)(''u1'' \<mapsto>
          facts_of one_turn ''u1'' @ kept_items ''s1'' clock ?v)\<rparr>"
    by blast
  with k n have "memories (fst (snd (extract_memories ?g json_loads clock one_turn ''u1'' ''s1'')))
      ''u1'' = Some [stored_fact ''a'', stored_fact ''b'']"
    by (simp add: facts_of_def)
  moreover from extract_failure_state [OF r] u have
    "fst (snd (extract_memories (\<lambda>p. GenRaises) json_loads clock one_turn ''u1'' ''s1'')) = one_turn"
    by blast
  ultimately show ?thesis using h n r by blast
qed

text \<open>
  C2, counterexample to the claim as stated: the response decodes to a list whose second
  item is a number. The first item is stamped and appended, the second raises, the call
  returns the empty list through the handler, and the appended fact stays: the user's
  collection was empty before the call and holds one fact after it.
\<close>

theorem extract_failure_partial_append:
  \<open>extract_fails (\<lambda>p. GenText ''[{"fact": "a"}, 1]'') json_loads clock one_turn ''u1'' ''s1''
   \<and> fst (extract_memories (\<lambda>p. GenText ''[{"fact": "a"}, 1]'') json_loads clock one_turn
            ''u1'' ''s1'') = Inr (JList [])
   \<and> facts_of one_turn ''u1'' = []
   \<and> facts_of (extracted_from ''[{"fact": "a"}, 1]'') ''u1'' = [stored_fact ''a'']\<close>
  by code_simp

subsection \<open>search_memories\<close>

text \<open>
  C9. \<open>search_memories\<close> leaves the store, memories and sessions of every user, exactly
  as it was, whatever the generation call answers, and also when building the prompt
  raises.
\<close>

theorem search_read_only:
  "fst (snd (search_memories gen loads dumps st user_id query)) = st"
  by (simp add: search_memories_def Let_def split: option.splits sum.splits)

text \<open>
  C5. If the user has stored facts and the generation call, made with the prompt that
  lists them, raises or its text does not decode, \<open>search_memories\<close> returns the first
  three stored facts in their order, or all of them when there are fewer: \<open>min 3 n\<close>
  items, so at most three and at least one.
\<close>

theorem search_fallback:
  assumes "memories st user_id = Some ms" and "ms \<noteq> []"
    and "dumps ms = Inr listing"
    and "response_undecodable gen loads (SearchPrompt query listing)"
  shows "fst (search_memories gen loads dumps st user_id query) =
           Inr (JList (map JDict (take 3 ms)))
         \<and> length (take 3 ms) = min 3 (length ms)
         \<and> length (take 3 ms) \<le> 3 \<and> take 3 ms \<noteq> []"
  using assms
  by (auto simp: search_memories_def search_try_def response_undecodable_def Let_def
      split: gen_result.splits sum.splits)

text \<open>
  C5, witness: four stored facts and a response that is no JSON text; the first three
  facts come back.
\<close>

theorem search_fallback_witness:
  "memories four_facts ''u1'' =
     Some [stored_fact ''a'', stored_fact ''b'', stored_fact ''c'', stored_fact ''d'']
   \<and> \<not> isl (json_dumps 100
              [stored_fact ''a'', stored_fact ''b'', stored_fact ''c'', stored_fact ''d''])
   \<and> response_undecodable (\<lambda>p. GenText ''oops'') json_loads
       (SearchPrompt ''q'' (projr (json_dumps 100
          [stored_fact ''a'', stored_fact ''b'', stored_fact ''c'', stored_fact ''d''])))
   \<and> fst (search_memories (\<lambda>p. GenText ''oops'') json_loads (json_dumps 100) four_facts
            ''u1'' ''q'') =
       Inr (JList [JDict (stored_fact ''a''), JDict (stored_fact ''b''), JDict (stored_fact ''c'')])"
proof -
  let ?ms = "[stored_fact ''a'', stored_fact ''b'', stored_fact ''c'', stored_fact ''d'']"
  from four_facts_listing have l: "json_dumps 100 ?ms = Inr (projr (json_dumps 100 ?ms))"
    by simp
  from search_fallback [of four_facts "''u1''" ?ms "json_dumps 100"
      "projr (json_dumps 100 ?ms)" "\<lambda>p. GenText ''oops''" json_loads "''q''"]
    four_facts_memories l four_facts_listing oops_undecodable
  show ?thesis
    by simp
qed

text \<open>
  C3 (as the code has it). With no stored facts \<open>search_memories\<close> returns the empty
  list. With stored facts and a response that decodes to a list of objects, it returns
  that list whole, whatever its length: the code has no limit of five and no comparison
  with the store. When the call raises or the text does not decode, it returns the first
  three stored facts, which are at most three and never more than the user has stored.
\<close>

theorem search_result_lengths:
  "(facts_of st user_id = [] \<longrightarrow>
      fst (search_memories gen loads dumps st user_id query) = Inr (JList []))
   \<and> (facts_of st user_id \<noteq> [] \<and> dumps (facts_of st user_id) = Inr listing
        \<and> gen (SearchPrompt query listing) = GenText resp
        \<and> loads (clean_response resp) = Inr (JList items) \<and> list_all is_dict items \<longrightarrow>
      fst (search_memories gen loads dumps st user_id query) = Inr (JList items))
   \<and> (facts_of st user_id \<noteq> [] \<and> dumps (facts_of st user_id) = Inr listing
        \<and> response_undecodable gen loads (SearchPrompt query listing) \<longrightarrow>
      fst (search_memories gen loads dumps st user_id query) =
        Inr (JList (map JDict (take 3 (facts_of st user_id))))
      \<and> length (take 3 (facts_of st user_id)) \<le> 3
      \<and> length (take 3 (facts_of st user_id)) \<le> length (facts_of st user_id))"
  by (auto simp: search_memories_def search_try_def response_undecodable_def Let_def
      facts_of_def split: option.splits sum.splits gen_result.splits)

text \<open>
  C3, witness: four stored facts. A response with one scored fact gives that one fact
  back, and a response that is no JSON text gives the first three of the four.
\<close>

theorem search_result_lengths_witness:
  \<open>facts_of four_facts ''u1'' \<noteq> []
   \<and> fst (search_memories
        (\<lambda>p. GenText ''[{"fact": "b", "session_id": "s1", "extracted_at": "t", "relevance_score": 7}]'')
        json_loads (json_dumps 100) four_facts ''u1'' ''q'') = Inr (JList [JDict (scored_fact ''b'' 7)])
   \<and> fst (search_memories (\<lambda>p. GenText ''oops'') json_loads (json_dumps 100) four_facts
        ''u1'' ''q'') = Inr (JList (map JDict (take 3 (facts_of four_facts ''u1''))))
   \<and> length (take 3 (facts_of four_facts ''u1'')) \<le> length (facts_of four_facts ''u1'')\<close>
proof -
  let ?ms = "[stored_fact ''a'', stored_fact ''b'', stored_fact ''c'', stored_fact ''d'']"
  let ?l = "projr (json_dumps 100 ?ms)"
  have f: "facts_of four_facts ''u1'' = ?ms"
    by (simp add: facts_of_def four_facts_memories)
  from four_facts_listing f have l: "json_dumps 100 (facts_of four_facts ''u1'') = Inr ?l"
    by simp
  have d: \<open>json_loads (clean_response
        ''[{"fact": "b", "session_id": "s1", "extracted_at": "t", "relevance_score": 7}]'') =
      Inr (JList [JDict (scored_fact ''b'' 7)])\<close>
    by code_simp
  have i: "list_all is_dict [JDict (scored_fact ''b'' 7)]"
    by (simp add: is_dict_def)
  have n: "facts_of four_facts ''u1'' \<noteq> []"
    by (simp add: f)
  from search_result_lengths [of four_facts "''u1''"
      \<open>\<lambda>p. GenText ''[{"fact": "b", "session_id": "s1", "extracted_at": "t", "relevance_score": 7}]''\<close>
      json_loads "json_dumps 100" "''q''" ?l
      \<open>''[{"fact": "b", "session_id": "s1", "extracted_at": "t", "relevance_score": 7}]''\<close>
      "[JDict (scored_fact ''b'' 7)]"] n l d i
  have a: \<open>fst (search_memories
        (\<lambda>p. GenText ''[{"fact": "b", "session_id": "s1", "extracted_at": "t", "relevance_score": 7}]'')
        json_loads (json_dumps 100) four_facts ''u1'' ''q'') = Inr (JList [JDict (scored_fact ''b'' 7)])\<close>
    by blast
  from search_result_lengths [of four_facts "''u1''" "\<lambda>p. GenText ''oops''"
      json_loads "json_dumps 100" "''q''" ?l] n l oops_undecodable
  have b: "fst (search_memories (\<lambda>p. GenText ''oops'') json_loads (json_dumps 100) four_facts
        ''u1'' ''q'') = Inr (JList (map JDict (take 3 (facts_of four_facts ''u1''))))
      \<and> length (take 3 (facts_of four_facts ''u1'')) \<le> length (facts_of four_facts ''u1'')"
    by blast
  from n a b show ?thesis by blast
qed

text \<open>
  C3, counterexample to the claim as stated: one stored fact, and a response that lists
  that fact six times, each time with a relevance score. All six objects come back: more
  than five, and more than the store holds.
\<close>

theorem search_returns_six_facts:
  \<open>fst (search_memories
      (\<lambda>p. GenText ''[{"fact": "a", "session_id": "s1", "extracted_at": "t", "relevance_score": 9}, {"fact": "a", "session_id": "s1", "extracted_at": "t", "relevance_score": 8}, {"fact": "a", "session_id": "s1", "extracted_at": "t", "relevance_score": 7}, {"fact": "a", "session_id": "s1", "extracted_at": "t", "relevance_score": 6}, {"fact": "a", "session_id": "s1", "extracted_at": "t", "relevance_score": 5}, {"fact": "a", "session_id": "s1", "extracted_at": "t", "relevance_score": 4}]'')
      json_loads (json_dumps 100) one_fact ''u1'' ''q'') =
     Inr (JList [JDict (scored_fact ''a'' 9), JDict (scored_fact ''a'' 8),
                 JDict (scored_fact ''a'' 7), JDict (scored_fact ''a'' 6),
                 JDict (scored_fact ''a'' 5), JDict (scored_fact ''a'' 4)])
   \<and> facts_of one_fact ''u1'' = [stored_fact ''a'']\<close>
  unfolding one_fact_def by code_simp

subsection \<open>What the two methods return\<close>

text \<open>
  An exception raised while the prompt of a search is built leaves \<open>search_memories\<close>:
  the listing of the stored facts is written before the \<open>try\<close> block is entered.
\<close>

lemma search_listing_error_escapes:
  "memories st user_id = Some ms \<Longrightarrow> ms \<noteq> [] \<Longrightarrow> dumps ms = Inl e \<Longrightarrow>
     search_memories gen loads dumps st user_id query = (Inl e, st, [])"
  by (simp add: search_memories_def)

text \<open>
  C1, the code at the failing input: one stored fact, and a generation call that answers
  a search with the text \<open>5\<close>. \<open>search_memories\<close> returns the number 5, which is no list.
\<close>

theorem search_returns_number:
  \<open>fst (search_memories (\<lambda>p. GenText ''5'') json_loads (json_dumps 100) one_fact ''u1'' ''q'') =
     Inr (JInt 5)
   \<and> \<not> is_list (JInt 5)
   \<and> facts_of one_fact ''u1'' = [stored_fact ''a'']\<close>
  unfolding one_fact_def by code_simp

subsection \<open>get_memory_summary\<close>

text \<open>
  C10. \<open>extract_memories\<close> stores the decoded items without looking at their keys: the
  store reached from the empty one by one turn and one extraction, answered with an
  object that has no key \<open>fact\<close>, holds a fact without that key. In every store where
  some fact of the user lacks the key, \<open>get_memory_summary\<close> raises KeyError and returns
  no text; where every stored fact has a string under \<open>fact\<close> it returns a text.
\<close>

theorem summary_needs_fact_key:
  \<open>reachable json_loads (extracted_from ''[{"context": "x"}]'')
   \<and> lacks_fact (extracted_from ''[{"context": "x"}]'') ''u1''
   \<and> (lacks_fact st user_id \<longrightarrow> get_memory_summary repr st user_id = Inl KeyError)
   \<and> (list_all has_text_fact (facts_of st user_id) \<longrightarrow>
        (\<exists>t. get_memory_summary repr st user_id = Inr t))\<close>
proof -
  have r: \<open>reachable json_loads (extracted_from ''[{"context": "x"}]'')\<close>
    unfolding extracted_from_def one_turn_def
    by (intro reach_extract reach_add reach_init)
  have l: \<open>lacks_fact (extracted_from ''[{"context": "x"}]'') ''u1''\<close>
    unfolding lacks_fact_def by code_simp
  have a: "lacks_fact st user_id \<longrightarrow> get_memory_summary repr st user_id = Inl KeyError"
    by (auto simp: lacks_fact_def facts_of_def get_memory_summary_def memory_facts_missing
        split: option.splits)
  have b: "list_all has_text_fact (facts_of st user_id) \<longrightarrow>
        (\<exists>t. get_memory_summary repr st user_id = Inr t)"
  proof
    assume n: "list_all has_text_fact (facts_of st user_id)"
    show "\<exists>t. get_memory_summary repr st user_id = Inr t"
    proof (cases "memories st user_id")
      case None
      then show ?thesis by (simp add: get_memory_summary_def)
    next
      case (Some ms)
      with n have "list_all has_text_fact ms"
        by (simp add: facts_of_def)
      from memory_facts_text [OF this] obtain fs ls where
        "memory_facts ms = Inr fs" "collect (map (fact_line repr) fs) = Inr ls"
        by blast
      with Some show ?thesis by (simp add: get_memory_summary_def)
    qed
  qed
  from r l a b show ?thesis by blast
qed

text \<open>
  C10, witness: in the store above the summary of user \<open>u1\<close> raises KeyError, and in the
  store with the one fact \<open>a\<close> it is a text, whatever \<open>repr\<close> is.
\<close>

theorem summary_needs_fact_key_witness:
  \<open>lacks_fact (extracted_from ''[{"context": "x"}]'') ''u1''
   \<and> (\<forall>repr. get_memory_summary repr (extracted_from ''[{"context": "x"}]'') ''u1'' = Inl KeyError)
   \<and> list_all has_text_fact (facts_of one_fact ''u1'')
   \<and> (\<forall>repr. \<exists>t. get_memory_summary repr one_fact ''u1'' = Inr t)\<close>
proof -
  have l: \<open>lacks_fact (extracted_from ''[{"context": "x"}]'') ''u1''\<close>
    unfolding lacks_fact_def by code_simp
  have t: "list_all has_text_fact (facts_of one_fact ''u1'')"
    unfolding one_fact_def by code_simp
  have \<open>get_memory_summary repr (extracted_from ''[{"context": "x"}]'') ''u1'' = Inl KeyError\<close>
    for repr
    using summary_needs_fact_key [of \<open>extracted_from ''[{"context": "x"}]''\<close> "''u1''" repr] l
    by blast
  moreover have "\<exists>t. get_memory_summary repr one_fact ''u1'' = Inr t" for repr
    using summary_needs_fact_key [of one_fact "''u1''" repr] t
    by blast
  ultimately show ?thesis using l t by blast
qed

subsection \<open>Fenced responses\<close>




end
